theory Spec2Isabelle
  imports Complex_Main "HOL-Library.Log_Nat"
begin

section \<open>Data model of airflow/sensors/external\_task.py\<close>

text \<open>
  Timestamps (\<open>datetime\<close>) are integers counting microseconds from the epoch,
  durations (\<open>timedelta\<close>) are integers counting microseconds; a \<open>timedelta\<close> is
  falsy exactly when it is zero. State labels are strings.
\<close>

type_synonym timestamp = int
type_synonym timedelta = int
type_synonym state = string

text \<open>
  A \<open>datetime\<close> lies between \<open>datetime.min\<close>, the first microsecond of year 1, and
  \<open>datetime.max\<close>, the last microsecond of year 9999.
\<close>

definition datetime_min :: timestamp where
  "datetime_min = - 62135596800000000"

definition datetime_max :: timestamp where
  "datetime_max = 253402300799999999"

text \<open>The value of \<open>State.SUCCESS\<close>, as the docstring of the sensor gives it.\<close>

definition State_SUCCESS :: state where
  "State_SUCCESS = ''success''"

text \<open>
  \<open>State.task_states\<close> and \<open>State.dag_states\<close> come from \<open>airflow.utils.state\<close>;
  the two vocabularies are parameters of the construction.
\<close>

record State_class =
  task_states :: "state list"
  dag_states :: "state list"

text \<open>
  The exceptions of the file, each with the data its message interpolates. The last
  four are raised by Python itself or by the user's function rather than by a
  \<open>raise\<close> statement of the file.
\<close>

datatype message =
    Duplicate_states "state list" "state list"
  | Only_one_of_task_id_or_task_ids
  | Invalid_task_states "state list"
  | Duplicate_task_ids
  | Invalid_dag_states "state list"
  | Only_one_of_delta_or_fn
  | External_tasks_failed "string list" string
  | External_dag_failed string
  | External_dag_does_not_exist string
  | External_dag_was_deleted string
  | External_task_does_not_exist string string
  | Expected_str_or_datetime
  | Recursion_depth_not_positive

datatype error =
    AirflowException message
  | ValueError message
  | TypeError message
  | KeyError string
  | AttributeError string
  | OverflowError string
  | Raised_by_execution_date_fn string

text \<open>
  \<open>datetime - timedelta\<close>: the difference, or the \<open>OverflowError\<close> Python raises
  when the difference is no \<open>datetime\<close>.
\<close>

definition datetime_sub :: "timestamp \<Rightarrow> timedelta \<Rightarrow> error + timestamp" where
  "datetime_sub t d =
    (if datetime_min \<le> t - d \<and> t - d \<le> datetime_max then Inr (t - d)
     else Inl (OverflowError ''date value out of range''))"

text \<open>
  The context dictionary, restricted to its timestamp entries. The value an
  \<open>execution_date_fn\<close> returns is a single timestamp or a list of them. The function
  receives the logical date, the keyword arguments built from the context, and the
  context itself (the \<open>context\<close> keyword); it is the user's function as seen through
  \<open>make_kwargs_callable\<close>. It returns a value or raises an exception of its own
  (\<open>Inl\<close>, with the exception's text).
\<close>

type_synonym "context" = "string \<rightharpoonup> timestamp"

datatype dttm = One timestamp | Many "timestamp list"

type_synonym date_fn = "timestamp \<Rightarrow> context \<Rightarrow> context \<Rightarrow> string + dttm"

text \<open>The rows the session is queried for. A row whose state is NULL matches no
  \<open>IN\<close> filter and is not represented.\<close>

record DagModel =
  dm_dag_id :: string
  dm_fileloc :: string

record TaskInstance =
  ti_dag_id :: string
  ti_task_id :: string
  ti_state :: state
  ti_execution_date :: timestamp

record DagRun =
  dr_dag_id :: string
  dr_state :: state
  dr_execution_date :: timestamp

record session =
  dag_models :: "DagModel list"
  task_instances :: "TaskInstance list"
  dag_runs :: "DagRun list"

text \<open>
  What \<open>_check_for_existence\<close> reads outside the session: \<open>os.path.exists\<close>, and
  \<open>DagBag(fileloc).get_dag(dag_id)\<close>, which gives the task ids of the parsed DAG or
  \<open>None\<close>.
\<close>

record host =
  path_exists :: "string \<Rightarrow> bool"
  dagbag_get_dag :: "string \<Rightarrow> string \<Rightarrow> string list option"

record sensor =
  allowed_states :: "state list"
  failed_states :: "state list"
  execution_delta :: "timedelta option"
  execution_date_fn :: "date_fn option"
  external_dag_id :: string
  external_task_id :: "string option"
  external_task_ids :: "string list option"
  check_existence :: bool
  has_checked_existence :: bool

text \<open>The keyword arguments of \<open>ExternalTaskSensor.__init__\<close>.\<close>

record sensor_args =
  arg_external_dag_id :: string
  arg_external_task_id :: "string option"
  arg_external_task_ids :: "string list option"
  arg_allowed_states :: "state list option"
  arg_failed_states :: "state list option"
  arg_execution_delta :: "timedelta option"
  arg_execution_date_fn :: "date_fn option"
  arg_check_existence :: bool

section \<open>ExternalTaskSensor\<close>

text \<open>
  Python truthiness of an optional collection: \<open>None\<close> and the empty one are falsy.
  \<open>list_or\<close> is \<open>list(x) if x else default\<close>; an \<open>if external_task_ids:\<close> is a
  \<open>case\<close> whose first branch takes \<open>Some (t # ts)\<close> and whose second takes the rest.
\<close>

fun list_or :: "'a list option \<Rightarrow> 'a list \<Rightarrow> 'a list" where
  "list_or None d = d"
| "list_or (Some xs) d = (if xs \<noteq> [] then xs else d)"

text \<open>\<open>ExternalTaskSensor.__init__\<close>, lines 100 to 146.\<close>

definition ExternalTaskSensor_init :: "State_class \<Rightarrow> sensor_args \<Rightarrow> error + sensor" where
  "ExternalTaskSensor_init St a =
    (let allowed = list_or (arg_allowed_states a) [State_SUCCESS];
         failed = list_or (arg_failed_states a) [];
         total_states = set (allowed @ failed)
     in
     if set failed \<inter> set allowed \<noteq> {} then
       Inl (AirflowException (Duplicate_states allowed failed))
     else if arg_external_task_id a \<noteq> None \<and> arg_external_task_ids a \<noteq> None then
       Inl (ValueError Only_one_of_task_id_or_task_ids)
     else
       let ids = (case arg_external_task_id a of
                    Some t \<Rightarrow> Some [t]
                  | None \<Rightarrow> arg_external_task_ids a);
           rest =
             (if arg_execution_delta a \<noteq> None \<and> arg_execution_date_fn a \<noteq> None then
                Inl (ValueError Only_one_of_delta_or_fn)
              else
                Inr \<lparr> allowed_states = allowed,
                      failed_states = failed,
                      execution_delta = arg_execution_delta a,
                      execution_date_fn = arg_execution_date_fn a,
                      external_dag_id = arg_external_dag_id a,
                      external_task_id = arg_external_task_id a,
                      external_task_ids = ids,
                      check_existence = arg_check_existence a,
                      has_checked_existence = False \<rparr>)
       in
       (case ids of
          Some (t # ts) \<Rightarrow>
            if \<not> total_states \<subseteq> set (task_states St) then
              Inl (ValueError (Invalid_task_states (task_states St)))
            else if length (t # ts) > length (remdups (t # ts)) then
              Inl (ValueError Duplicate_task_ids)
            else rest
        | _ \<Rightarrow>
            if \<not> total_states \<subseteq> set (dag_states St) then
              Inl (ValueError (Invalid_dag_states (dag_states St)))
            else rest))"

text \<open>
  \<open>_handle_execution_date_fn\<close>: the logical date is read from the context, the
  keyword arguments are the context without \<open>execution_date\<close> and \<open>logical_date\<close>,
  and the context is passed again under \<open>context\<close>.
\<close>

definition handle_execution_date_fn :: "date_fn \<Rightarrow> context \<Rightarrow> error + dttm" where
  "handle_execution_date_fn f ctx =
    (case ctx ''logical_date'' of
       None \<Rightarrow> Inl (KeyError ''logical_date'')
     | Some logical_date \<Rightarrow>
         (case f logical_date (ctx |` (- {''execution_date'', ''logical_date''})) ctx of
            Inl raised \<Rightarrow> Inl (Raised_by_execution_date_fn raised)
          | Inr dttm \<Rightarrow> Inr dttm))"

text \<open>Lines 150 to 155 of \<open>poke\<close>: the \<open>if\<close>/\<open>elif\<close>/\<open>else\<close> on the two options.\<close>

definition poke_dttm :: "sensor \<Rightarrow> context \<Rightarrow> error + dttm" where
  "poke_dttm s ctx =
    (if (case execution_delta s of None \<Rightarrow> False | Some d \<Rightarrow> d \<noteq> 0) then
       (case ctx ''logical_date'' of
          None \<Rightarrow> Inl (KeyError ''logical_date'')
        | Some t \<Rightarrow>
            (case datetime_sub t (the (execution_delta s)) of
               Inl e \<Rightarrow> Inl e
             | Inr dttm \<Rightarrow> Inr (One dttm)))
     else
       (case execution_date_fn s of
          Some f \<Rightarrow> handle_execution_date_fn f ctx
        | None \<Rightarrow>
            (case ctx ''logical_date'' of
               None \<Rightarrow> Inl (KeyError ''logical_date'')
             | Some t \<Rightarrow> Inr (One t))))"

text \<open>Line 157: \<open>dttm if isinstance(dttm, list) else [dttm]\<close>.\<close>

fun dttm_filter_of :: "dttm \<Rightarrow> timestamp list" where
  "dttm_filter_of (Many ts) = ts"
| "dttm_filter_of (One t) = [t]"

text \<open>Lines 150 to 157 together: the resolved target sequence of one call.\<close>

definition poke_dttm_filter :: "sensor \<Rightarrow> context \<Rightarrow> error + timestamp list" where
  "poke_dttm_filter s ctx =
    (case poke_dttm s ctx of
       Inl e \<Rightarrow> Inl e
     | Inr dttm \<Rightarrow> Inr (dttm_filter_of dttm))"

text \<open>The loop of \<open>_check_for_existence\<close> over the task ids: the first id the DAG
  does not have raises.\<close>

fun check_tasks :: "string \<Rightarrow> string list \<Rightarrow> string list \<Rightarrow> error option" where
  "check_tasks dag_id dag_tasks [] = None"
| "check_tasks dag_id dag_tasks (t # ts) =
     (if t \<notin> set dag_tasks then
        Some (AirflowException (External_task_does_not_exist t dag_id))
      else check_tasks dag_id dag_tasks ts)"

text \<open>
  \<open>_check_for_existence\<close>: the flag is set by the last statement, so only a check
  that raised nothing sets it. A DAG that \<open>get_dag\<close> does not find is \<open>None\<close>, and
  \<open>has_task\<close> on it is an \<open>AttributeError\<close>.
\<close>

definition check_for_existence :: "host \<Rightarrow> sensor \<Rightarrow> session \<Rightarrow> error + sensor" where
  "check_for_existence h s sess =
    (case find (\<lambda>d. dm_dag_id d = external_dag_id s) (dag_models sess) of
       None \<Rightarrow> Inl (AirflowException (External_dag_does_not_exist (external_dag_id s)))
     | Some dag_to_wait \<Rightarrow>
         if \<not> path_exists h (dm_fileloc dag_to_wait) then
           Inl (AirflowException (External_dag_was_deleted (external_dag_id s)))
         else
           (case external_task_ids s of
              Some (t # ts) \<Rightarrow>
                (case dagbag_get_dag h (dm_fileloc dag_to_wait) (external_dag_id s) of
                   None \<Rightarrow> Inl (AttributeError ''has_task'')
                 | Some dag_tasks \<Rightarrow>
                     (case check_tasks (external_dag_id s) dag_tasks (t # ts) of
                        Some e \<Rightarrow> Inl e
                      | None \<Rightarrow> Inr (s\<lparr>has_checked_existence := True\<rparr>)))
            | _ \<Rightarrow> Inr (s\<lparr>has_checked_existence := True\<rparr>)))"

text \<open>
  Python's \<open>a / b\<close> on integers \<open>a \<ge> 0\<close> and \<open>b > 0\<close> is a float: the double nearest
  to the quotient, ties going to the even significand. A double is a multiple of
  \<open>2 ^ e\<close> with a significand of at most 53 bits and \<open>e \<ge> - 1074\<close>. The value of the
  float is kept as a rational.

  \<open>floor_log2_quotient a b\<close> is the integer \<open>l\<close> with \<open>2 ^ l \<le> a / b < 2 ^ (l + 1)\<close>;
  \<open>round_half_even_at a b e\<close> is the multiple of \<open>2 ^ e\<close> nearest to \<open>a / b\<close>.
\<close>

definition floor_log2_quotient :: "int \<Rightarrow> int \<Rightarrow> int" where
  "floor_log2_quotient a b =
    (let d = bitlen a - bitlen b
     in if b * 2 ^ nat d \<le> a * 2 ^ nat (- d) then d else d - 1)"

definition round_half_even_at :: "int \<Rightarrow> int \<Rightarrow> int \<Rightarrow> rat" where
  "round_half_even_at a b e =
    (let num = a * 2 ^ nat (- e);
         den = b * 2 ^ nat e;
         f = num div den;
         r = num mod den;
         m = (if 2 * r < den then f
              else if den < 2 * r then f + 1
              else if even f then f else f + 1)
     in of_int m * 2 ^ nat e / 2 ^ nat (- e))"

definition true_divide :: "int \<Rightarrow> int \<Rightarrow> rat" where
  "true_divide a b =
    (if a = 0 then 0
     else round_half_even_at a b (max (floor_log2_quotient a b - 52) (- 1074)))"

text \<open>
  \<open>get_count\<close>. The count of a query is an integer; with task ids it is divided by
  their number with \<open>/\<close>, so the result is a float. The value returned, integer or
  float, is kept as a rational: Python compares the two kinds by value. The divisor
  is the length of a non-empty list, and the count of a query is a database integer
  of 64 bits, so the division raises neither \<open>ZeroDivisionError\<close> nor
  \<open>OverflowError\<close>.
\<close>

definition get_count :: "sensor \<Rightarrow> timestamp list \<Rightarrow> session \<Rightarrow> state list \<Rightarrow> rat" where
  "get_count s dttm_filter sess states =
    (if dttm_filter = [] then 0
     else
       (case external_task_ids s of
          Some (t # ts) \<Rightarrow>
            true_divide
              (int (length (filter
                (\<lambda>ti. ti_dag_id ti = external_dag_id s
                    \<and> ti_task_id ti \<in> set (t # ts)
                    \<and> ti_state ti \<in> set states
                    \<and> ti_execution_date ti \<in> set dttm_filter)
                (task_instances sess))))
              (int (length (t # ts)))
        | _ \<Rightarrow>
            of_nat (length (filter
              (\<lambda>dr. dr_dag_id dr = external_dag_id s
                  \<and> dr_state dr \<in> set states
                  \<and> dr_execution_date dr \<in> set dttm_filter)
              (dag_runs sess)))))"

text \<open>
  \<open>poke\<close> returns or raises (\<open>outcome\<close>), may set the flag of the sensor
  (\<open>sensor_after\<close>), and calls \<open>_check_for_existence\<close> and \<open>get_count\<close> in an
  order that matters: \<open>calls\<close> lists the calls as they are made. The log line
  of \<open>poke\<close> is left out.
\<close>

datatype call = Call_check_for_existence | Call_get_count "state list"

record poke_result =
  outcome :: "error + bool"
  sensor_after :: sensor
  calls :: "call list"

definition poke :: "host \<Rightarrow> sensor \<Rightarrow> context \<Rightarrow> session \<Rightarrow> poke_result" where
  "poke h s ctx sess =
    (case poke_dttm_filter s ctx of
       Inl e \<Rightarrow> \<lparr>outcome = Inl e, sensor_after = s, calls = []\<rparr>
     | Inr dttm_filter \<Rightarrow>
         let checked =
               (if check_existence s \<and> \<not> has_checked_existence s then
                  (case check_for_existence h s sess of
                     Inl e \<Rightarrow> Inl e
                   | Inr s' \<Rightarrow> Inr (s', [Call_check_for_existence]))
                else Inr (s, []))
         in
         (case checked of
            Inl e \<Rightarrow>
              \<lparr>outcome = Inl e, sensor_after = s, calls = [Call_check_for_existence]\<rparr>
          | Inr (s1, cs) \<Rightarrow>
              let count_allowed = get_count s1 dttm_filter sess (allowed_states s1);
                  count_failed =
                    (if failed_states s1 \<noteq> [] then
                       get_count s1 dttm_filter sess (failed_states s1)
                     else - 1);
                  cs' = cs @ [Call_get_count (allowed_states s1)]
                           @ (if failed_states s1 \<noteq> [] then
                                [Call_get_count (failed_states s1)]
                              else [])
              in
              if count_failed = of_nat (length dttm_filter) then
                (case external_task_ids s1 of
                   Some (t # ts) \<Rightarrow>
                     \<lparr>outcome = Inl (AirflowException
                        (External_tasks_failed (t # ts) (external_dag_id s1))),
                      sensor_after = s1, calls = cs'\<rparr>
                 | _ \<Rightarrow>
                     \<lparr>outcome = Inl (AirflowException
                        (External_dag_failed (external_dag_id s1))),
                      sensor_after = s1, calls = cs'\<rparr>)
              else
                \<lparr>outcome = Inr (count_allowed = of_nat (length dttm_filter)),
                 sensor_after = s1, calls = cs'\<rparr>))"

text \<open>
  The host calls \<open>poke\<close> again and again on the same instance; each call has its own
  context, session contents and file system. The flag is the only thing carried
  from one call to the next.
\<close>

fun poke_many :: "sensor \<Rightarrow> (host \<times> context \<times> session) list \<Rightarrow> poke_result list" where
  "poke_many s [] = []"
| "poke_many s ((h, ctx, sess) # rest) =
     (let r = poke h s ctx sess in r # poke_many (sensor_after r) rest)"

section \<open>ExternalTaskMarker\<close>

text \<open>
  The \<open>execution_date\<close> argument is a \<open>datetime\<close>, a string, or anything else
  (\<open>None\<close> included). \<open>datetime.isoformat\<close> is the standard library's and is a
  parameter.
\<close>

datatype execution_date_arg = Datetime_arg timestamp | Str_arg string | Other_arg

record marker =
  marker_external_dag_id :: string
  marker_external_task_id :: string
  marker_execution_date :: string
  marker_recursion_depth :: int

definition ExternalTaskMarker_init ::
  "(timestamp \<Rightarrow> string) \<Rightarrow> string \<Rightarrow> string \<Rightarrow> execution_date_arg \<Rightarrow> int \<Rightarrow> error + marker" where
  "ExternalTaskMarker_init isoformat dag_id task_id execution_date recursion_depth =
    (case (case execution_date of
             Datetime_arg d \<Rightarrow> Inr (isoformat d)
           | Str_arg str \<Rightarrow> Inr str
           | Other_arg \<Rightarrow> Inl (TypeError Expected_str_or_datetime)) of
       Inl e \<Rightarrow> Inl e
     | Inr ed \<Rightarrow>
         if recursion_depth \<le> 0 then Inl (ValueError Recursion_depth_not_positive)
         else Inr \<lparr> marker_external_dag_id = dag_id,
                    marker_external_task_id = task_id,
                    marker_execution_date = ed,
                    marker_recursion_depth = recursion_depth \<rparr>)"

section \<open>The store as the specification describes it\<close>

text \<open>
  The specification's counting contract for step ids: the records matching
  (workflow id, step id among the step ids, state among the states, target timestamp
  among the targets).
\<close>

definition matching_records ::
  "string \<Rightarrow> string list \<Rightarrow> state list \<Rightarrow> timestamp list \<Rightarrow> TaskInstance list \<Rightarrow> TaskInstance list" where
  "matching_records workflow_id step_ids states targets rows =
    filter (\<lambda>r. ti_dag_id r = workflow_id \<and> ti_task_id r \<in> set step_ids
               \<and> ti_state r \<in> set states
               \<and> ti_execution_date r \<in> set targets) rows"

text \<open>
  Without step ids the contract counts the workflow-run records matching (workflow
  id, state among the states, target timestamp among the targets).
\<close>

definition matching_runs ::
  "string \<Rightarrow> state list \<Rightarrow> timestamp list \<Rightarrow> DagRun list \<Rightarrow> DagRun list" where
  "matching_runs workflow_id states targets rows =
    filter (\<lambda>r. dr_dag_id r = workflow_id \<and> dr_state r \<in> set states
               \<and> dr_execution_date r \<in> set targets) rows"

text \<open>The specification's \<open>NotFoundError\<close>: the three errors of the existence check.\<close>

fun NotFoundError :: "error + bool \<Rightarrow> bool" where
  "NotFoundError (Inl (AirflowException (External_dag_does_not_exist _))) = True"
| "NotFoundError (Inl (AirflowException (External_dag_was_deleted _))) = True"
| "NotFoundError (Inl (AirflowException (External_task_does_not_exist _ _))) = True"
| "NotFoundError _ = False"

definition ran_check :: "poke_result \<Rightarrow> bool" where
  "ran_check r = (Call_check_for_existence \<in> set (calls r))"

section \<open>A concrete installation\<close>

text \<open>
  Workflow \<open>W\<close> with steps \<open>A\<close> and \<open>B\<close>, defined in \<open>/dags/w.py\<close>; the logical
  date of the context is 100, and the two-target sensors look at 100 and 101.
\<close>

definition ex_State :: State_class where
  "ex_State = \<lparr> task_states = [''success'', ''failed'', ''running'', ''skipped''],
                 dag_states = [''success'', ''failed'', ''running'', ''queued''] \<rparr>"

definition ex_host :: host where
  "ex_host = \<lparr> path_exists = (\<lambda>p. p = ''/dags/w.py''),
                dagbag_get_dag = (\<lambda>p d. if p = ''/dags/w.py'' \<and> d = ''W''
                                        then Some [''A'', ''B''] else None) \<rparr>"

definition ex_ctx :: "context" where
  "ex_ctx = [''logical_date'' \<mapsto> 100]"

definition ctx_at_datetime_min :: "context" where
  "ctx_at_datetime_min = [''logical_date'' \<mapsto> - 62135596800000000]"

definition ex_args :: sensor_args where
  "ex_args = \<lparr> arg_external_dag_id = ''W'',
                arg_external_task_id = None,
                arg_external_task_ids = None,
                arg_allowed_states = None,
                arg_failed_states = None,
                arg_execution_delta = None,
                arg_execution_date_fn = None,
                arg_check_existence = False \<rparr>"

definition two_dates :: date_fn where
  "two_dates = (\<lambda>t kwargs ctx. Inr (Many [t, t + 1]))"

definition no_dates :: date_fn where
  "no_dates = (\<lambda>t kwargs ctx. Inr (Many []))"

definition ex_sensor :: "state list \<Rightarrow> state list \<Rightarrow> date_fn option \<Rightarrow> string list option
    \<Rightarrow> bool \<Rightarrow> sensor" where
  "ex_sensor allowed failed fn ids chk =
     \<lparr> allowed_states = allowed,
       failed_states = failed,
       execution_delta = None,
       execution_date_fn = fn,
       external_dag_id = ''W'',
       external_task_id = None,
       external_task_ids = ids,
       check_existence = chk,
       has_checked_existence = False \<rparr>"

definition ti :: "string \<Rightarrow> state \<Rightarrow> timestamp \<Rightarrow> TaskInstance" where
  "ti task st d = \<lparr> ti_dag_id = ''W'', ti_task_id = task, ti_state = st,
                     ti_execution_date = d \<rparr>"

definition ex_session :: "TaskInstance list \<Rightarrow> DagRun list \<Rightarrow> session" where
  "ex_session tis drs =
     \<lparr> dag_models = [\<lparr> dm_dag_id = ''W'', dm_fileloc = ''/dags/w.py'' \<rparr>],
       task_instances = tis,
       dag_runs = drs \<rparr>"

definition unregistered :: session where
  "unregistered = \<lparr> dag_models = [], task_instances = [], dag_runs = [] \<rparr>"

definition rows4 :: "TaskInstance list" where
  "rows4 = [ti ''A'' ''success'' 100, ti ''A'' ''success'' 101,
            ti ''B'' ''success'' 100, ti ''B'' ''success'' 101]"

definition rows3 :: "TaskInstance list" where
  "rows3 = [ti ''A'' ''success'' 100, ti ''A'' ''success'' 101,
            ti ''B'' ''success'' 100]"

section \<open>The division of the count\<close>

lemmas true_divide_defs =
  true_divide_def round_half_even_at_def floor_log2_quotient_def compute_bitlen

lemma true_divide_0: "true_divide 0 b = 0"
  by (simp add: true_divide_def)

lemma true_divide_2_2: "true_divide 2 2 = 1"
  by (simp add: true_divide_defs Let_def)

lemma true_divide_4_2: "true_divide 4 2 = 2"
  by (simp add: true_divide_defs Let_def)

lemma true_divide_3_2: "true_divide 3 2 = 3 / 2"
  by (simp add: true_divide_defs Let_def)

lemma true_divide_1_3: "true_divide 1 3 = 6004799503160661 / 18014398509481984"
  by (simp add: true_divide_defs Let_def)

text \<open>A quotient that is an integer below \<open>2 ^ 53\<close> is a double, and the division
  returns it.\<close>

lemma round_half_even_at_multiple:
  assumes "0 < b" and "e \<le> 0"
  shows "round_half_even_at (k * b) b e = of_int k"
proof -
  from assms(2) have ne: "nat e = 0" by simp
  let ?n = "nat (- e)"
  have "k * b * 2 ^ ?n = (k * 2 ^ ?n) * b" by (simp add: mult_ac)
  with assms(1) have f: "(k * b * 2 ^ ?n) div b = k * 2 ^ ?n"
    and r: "(k * b * 2 ^ ?n) mod b = 0" by simp_all
  show ?thesis
    using assms(1) by (simp add: round_half_even_at_def Let_def ne f r)
qed

lemma floor_log2_quotient_multiple:
  assumes "0 < b" and "0 < k" and "k < 2 ^ 53"
  shows "floor_log2_quotient (k * b) b \<le> 52"
proof (rule ccontr)
  assume "\<not> floor_log2_quotient (k * b) b \<le> 52"
  then have big: "53 \<le> floor_log2_quotient (k * b) b" by simp
  let ?a = "k * b"
  let ?d = "bitlen ?a - bitlen b"
  from assms have apos: "0 < ?a" by simp
  show False
  proof (cases "b * 2 ^ nat ?d \<le> ?a * 2 ^ nat (- ?d)")
    case True
    with big have d: "53 \<le> ?d" by (simp add: floor_log2_quotient_def Let_def)
    then have "nat (- ?d) = 0" by simp
    with True have "b * 2 ^ nat ?d \<le> k * b" by simp
    with assms(1) have "(2::int) ^ nat ?d \<le> k" by (simp add: mult.commute)
    moreover from d have "(2::int) ^ 53 \<le> 2 ^ nat ?d"
      by (intro power_increasing) simp_all
    ultimately show False using assms(3) by linarith
  next
    case False
    with big have d: "54 \<le> ?d" by (simp add: floor_log2_quotient_def Let_def)
    from bitlen_bounds [OF apos] have lo: "2 ^ nat (bitlen ?a - 1) \<le> ?a" ..
    from bitlen_bounds [OF assms(1)] have hi: "b < 2 ^ nat (bitlen b)" ..
    have nb: "0 \<le> bitlen b" by (rule bitlen_nonneg)
    from d nb have "nat (bitlen b) + 53 \<le> nat (bitlen ?a - 1)" by linarith
    then have "(2::int) ^ (nat (bitlen b) + 53) \<le> 2 ^ nat (bitlen ?a - 1)"
      by (intro power_increasing) simp_all
    with lo have "(2::int) ^ (nat (bitlen b) + 53) \<le> ?a" by linarith
    then have A: "(2::int) ^ nat (bitlen b) * 2 ^ 53 \<le> k * b"
      by (simp only: power_add)
    define C :: int where "C = 2 ^ 53"
    define P :: int where "P = 2 ^ nat (bitlen b)"
    have Cpos: "0 < C" by (simp add: C_def)
    from A have A': "P * C \<le> k * b" by (simp only: C_def P_def)
    from hi have "b < P" by (simp only: P_def)
    with Cpos have B: "b * C < P * C" by simp
    from assms(3) have "k < C" by (simp only: C_def)
    with assms(1) have "k * b < C * b" by simp
    then have "k * b < b * C" by (simp only: mult.commute)
    with A' B show False by linarith
  qed
qed

lemma true_divide_exact:
  assumes "0 < b" and "0 \<le> k" and "k < 2 ^ 53"
  shows "true_divide (k * b) b = of_int k"
proof (cases "k = 0")
  case True
  then show ?thesis by (simp add: true_divide_def)
next
  case False
  with assms(2) have k: "0 < k" by simp
  from floor_log2_quotient_multiple [OF assms(1) k assms(3)]
  have "max (floor_log2_quotient (k * b) b - 52) (- 1074) \<le> 0" by simp
  from round_half_even_at_multiple [OF assms(1) this] assms(1) k show ?thesis
    by (simp add: true_divide_def)
qed

text \<open>The exponent is the one of the quotient: \<open>2 ^ l \<le> a / b < 2 ^ (l + 1)\<close>, with the
  powers of two moved to the side where their exponent is not negative.\<close>

lemma shift_less:
  fixes x y :: int
  assumes "x < 2 ^ q" and "2 ^ p \<le> y"
  shows "x * 2 ^ nat (- (int q - int p)) < y * 2 ^ nat (int q - int p)"
proof (cases "p \<le> q")
  case True
  then have q: "q = p + nat (int q - int p)" and z: "nat (- (int q - int p)) = 0" by simp_all
  have "x < 2 ^ (p + nat (int q - int p))" using assms(1) q by simp
  also have "\<dots> = 2 ^ p * 2 ^ nat (int q - int p)" by (simp only: power_add)
  also have "\<dots> \<le> y * 2 ^ nat (int q - int p)"
    using assms(2) by (intro mult_right_mono) simp_all
  finally show ?thesis using True by simp
next
  case False
  then have p: "p = q + nat (- (int q - int p))" and z: "nat (int q - int p) = 0" by simp_all
  have "x * 2 ^ nat (- (int q - int p)) < 2 ^ q * 2 ^ nat (- (int q - int p))"
    using assms(1) by (intro mult_strict_right_mono) simp_all
  also have "\<dots> = 2 ^ (q + nat (- (int q - int p)))" by (simp only: power_add)
  also have "\<dots> = 2 ^ p" using p by simp
  also have "\<dots> \<le> y" by (rule assms(2))
  finally show ?thesis by (simp add: z)
qed

lemma floor_log2_quotient_bounds:
  assumes "0 < a" and "0 < b"
  shows "b * 2 ^ nat (floor_log2_quotient a b) \<le> a * 2 ^ nat (- floor_log2_quotient a b)"
    and "a * 2 ^ nat (- (floor_log2_quotient a b + 1))
           < b * 2 ^ nat (floor_log2_quotient a b + 1)"
proof -
  let ?d = "bitlen a - bitlen b"
  from bitlen_bounds [OF assms(1)]
  have a_lo: "2 ^ nat (bitlen a - 1) \<le> a" and a_hi: "a < 2 ^ nat (bitlen a)" by simp_all
  from bitlen_bounds [OF assms(2)]
  have b_lo: "2 ^ nat (bitlen b - 1) \<le> b" and b_hi: "b < 2 ^ nat (bitlen b)" by simp_all
  have la: "1 \<le> bitlen a" using assms(1) by (simp add: bitlen_alt_def)
  have lb: "1 \<le> bitlen b" using assms(2) by (simp add: bitlen_alt_def)
  from shift_less [OF a_hi b_lo] la lb
  have up: "a * 2 ^ nat (- (?d + 1)) < b * 2 ^ nat (?d + 1)"
    by (simp add: algebra_simps)
  from shift_less [OF b_hi a_lo] la lb
  have down: "b * 2 ^ nat (?d - 1) < a * 2 ^ nat (- (?d - 1))"
    by (simp add: algebra_simps)
  show "b * 2 ^ nat (floor_log2_quotient a b) \<le> a * 2 ^ nat (- floor_log2_quotient a b)"
    using down by (auto simp: floor_log2_quotient_def Let_def)
  show "a * 2 ^ nat (- (floor_log2_quotient a b + 1))
           < b * 2 ^ nat (floor_log2_quotient a b + 1)"
    using up by (auto simp: floor_log2_quotient_def Let_def not_le)
qed

text \<open>The result is a multiple of \<open>2 ^ e\<close> at most half of \<open>2 ^ e\<close> away from the
  quotient.\<close>

lemma round_half_even_at_error:
  assumes "0 < b"
  shows "\<bar>round_half_even_at a b e - of_int a / of_int b\<bar> * 2 \<le> 2 ^ nat e / 2 ^ nat (- e)"
proof -
  define N :: int where "N = 2 ^ nat (- e)"
  define D :: int where "D = 2 ^ nat e"
  define num where "num = a * N"
  define den where "den = b * D"
  define f where "f = num div den"
  define r where "r = num mod den"
  define m where "m = (if 2 * r < den then f
              else if den < 2 * r then f + 1
              else if even f then f else f + 1)"
  have Npos: "0 < N" and Dpos: "0 < D" by (simp_all add: N_def D_def)
  with assms have den_pos: "0 < den" by (simp add: den_def)
  have num_eq: "num = f * den + r" by (simp add: f_def r_def)
  have r_bounds: "0 \<le> r" "r < den" using den_pos by (simp_all add: r_def)
  have val: "round_half_even_at a b e = of_int m * of_int D / of_int N"
    by (simp add: round_half_even_at_def Let_def m_def f_def r_def num_def den_def N_def D_def)
  have close: "\<bar>m * den - num\<bar> * 2 \<le> den"
    using r_bounds by (auto simp: m_def num_eq algebra_simps)
  have q: "(of_int a / of_int b :: rat) = of_int num * of_int D / (of_int den * of_int N)"
    using assms Npos Dpos by (simp add: num_def den_def field_simps)
  have "round_half_even_at a b e - of_int a / of_int b
      = of_int (m * den - num) * of_int D / (of_int den * of_int N)"
    using den_pos Npos by (simp add: val q field_simps)
  then have "\<bar>round_half_even_at a b e - of_int a / of_int b\<bar> * 2
      = of_int (\<bar>m * den - num\<bar> * 2) * (of_int D / (of_int den * of_int N))"
    using den_pos Npos Dpos by (simp add: abs_mult abs_divide)
  also have "\<dots> \<le> of_int den * (of_int D / (of_int den * of_int N))"
  proof (rule mult_right_mono)
    from close show "(of_int (\<bar>m * den - num\<bar> * 2) :: rat) \<le> of_int den"
      by (simp only: of_int_le_iff)
    from den_pos Npos Dpos show "(0::rat) \<le> of_int D / (of_int den * of_int N)" by simp
  qed
  also have "\<dots> = 2 ^ nat e / 2 ^ nat (- e)"
    using den_pos by (simp add: N_def D_def)
  finally show ?thesis .
qed

lemmas true_divide_numerals =
  true_divide_0 true_divide_2_2 true_divide_4_2 true_divide_3_2 true_divide_1_3

section \<open>Facts about one call of poke\<close>

lemmas ex_defs =
  ex_State_def ex_host_def ex_ctx_def ctx_at_datetime_min_def ex_args_def two_dates_def
  no_dates_def
  ex_sensor_def ti_def ex_session_def unregistered_def rows4_def rows3_def
  State_SUCCESS_def

lemmas poke_defs =
  poke_def poke_dttm_filter_def poke_dttm_def handle_execution_date_fn_def datetime_sub_def
  datetime_min_def datetime_max_def check_for_existence_def get_count_def
  true_divide_numerals Let_def

lemma check_for_existence_Inr:
  "check_for_existence h s sess = Inr s' \<Longrightarrow> s' = s\<lparr>has_checked_existence := True\<rparr>"
  by (auto simp: check_for_existence_def split: option.splits if_splits list.splits)

lemma get_count_flag:
  "get_count (s\<lparr>has_checked_existence := b\<rparr>) dttm_filter sess states
     = get_count s dttm_filter sess states"
  by (simp add: get_count_def split: option.splits list.splits)

text \<open>What poke does once the targets are resolved and the existence check, when it
  is due, has raised nothing.\<close>

lemma poke_after_check:
  assumes "poke_dttm_filter s ctx = Inr tf"
    and "check_existence s \<and> \<not> has_checked_existence s \<longrightarrow>
           (\<exists>s'. check_for_existence h s sess = Inr s')"
  shows "outcome (poke h s ctx sess) =
    (if failed_states s \<noteq> [] \<and> get_count s tf sess (failed_states s) = of_nat (length tf)
     then Inl (AirflowException (case external_task_ids s of
                 Some (t # ts) \<Rightarrow> External_tasks_failed (t # ts) (external_dag_id s)
               | _ \<Rightarrow> External_dag_failed (external_dag_id s)))
     else Inr (get_count s tf sess (allowed_states s) = of_nat (length tf)))"
proof (cases "check_existence s \<and> \<not> has_checked_existence s")
  case True
  with assms(2) obtain s' where c: "check_for_existence h s sess = Inr s'" by blast
  then have s': "s' = s\<lparr>has_checked_existence := True\<rparr>"
    by (rule check_for_existence_Inr)
  from True c assms(1) show ?thesis
    unfolding s'
    by (auto simp: poke_def Let_def get_count_flag split: option.splits list.splits)
next
  case False
  with assms(1) show ?thesis
    by (auto simp: poke_def Let_def split: option.splits list.splits)
qed

text \<open>A call that returns a verdict has not been stopped by the existence check.\<close>

lemma poke_returns_check_passed:
  assumes "poke_dttm_filter s ctx = Inr tf"
    and "outcome (poke h s ctx sess) = Inr b"
  shows "check_existence s \<and> \<not> has_checked_existence s \<longrightarrow>
           (\<exists>s'. check_for_existence h s sess = Inr s')"
proof (cases "check_for_existence h s sess")
  case (Inl e)
  show ?thesis
  proof
    assume "check_existence s \<and> \<not> has_checked_existence s"
    with Inl assms have False by (simp add: poke_def)
    then show "\<exists>s'. check_for_existence h s sess = Inr s'" ..
  qed
next
  case (Inr s')
  then show ?thesis by blast
qed

section \<open>The verdict\<close>

text \<open>
  C1. For a non-empty resolved target sequence, a call of \<open>poke\<close> that returns
  normally returns true exactly when the count \<open>get_count\<close> computes for the allowed
  states over that sequence equals the number of targets.
\<close>

theorem poke_true_iff_count_allowed:
  assumes "poke_dttm_filter s ctx = Inr tf"
    and "tf \<noteq> []"
    and "outcome (poke h s ctx sess) = Inr b"
  shows "b \<longleftrightarrow> get_count s tf sess (allowed_states s) = of_nat (length tf)"
  using poke_after_check [OF assms(1) poke_returns_check_passed [OF assms(1,3)]] assms(3)
  by (simp split: if_splits)

theorem poke_true_iff_count_allowed_witness:
  "poke_dttm_filter (ex_sensor [''success''] [] (Some two_dates) (Some [''A'', ''B'']) True) ex_ctx
      = Inr [100, 101]
   \<and> [100, 101 :: timestamp] \<noteq> []
   \<and> outcome (poke ex_host (ex_sensor [''success''] [] (Some two_dates) (Some [''A'', ''B'']) True)
        ex_ctx (ex_session rows4 [])) = Inr True
   \<and> get_count (ex_sensor [''success''] [] (Some two_dates) (Some [''A'', ''B'']) True)
        [100, 101] (ex_session rows4 []) [''success''] = 2"
proof -
  let ?s = "ex_sensor [''success''] [] (Some two_dates) (Some [''A'', ''B'']) True"
  have h1: "poke_dttm_filter ?s ex_ctx = Inr [100, 101]"
    by (simp add: poke_defs ex_defs)
  have h2: "[100, 101 :: timestamp] \<noteq> []" by simp
  have h3: "outcome (poke ex_host ?s ex_ctx (ex_session rows4 [])) = Inr True"
    by (simp add: poke_defs ex_defs)
  have a: "allowed_states ?s = [''success'']" by (simp add: ex_defs)
  show ?thesis
    using poke_true_iff_count_allowed [OF h1 h2 h3] h1 h2 h3 a by simp
qed

section \<open>The failed-state check\<close>

text \<open>
  C2. When failed states are configured and the count \<open>get_count\<close> computes for them
  equals the number of targets, a call of \<open>poke\<close> that reaches the counts (the targets
  are resolved, and the existence check, when it is due, raises nothing) raises the
  \<open>AirflowException\<close> that names the external DAG and, when task ids are configured,
  the task ids. Nothing is assumed about the count for the allowed states.
\<close>

theorem poke_raises_when_all_failed:
  assumes "poke_dttm_filter s ctx = Inr tf"
    and "check_existence s \<and> \<not> has_checked_existence s \<longrightarrow>
           (\<exists>s'. check_for_existence h s sess = Inr s')"
    and "failed_states s \<noteq> []"
    and "get_count s tf sess (failed_states s) = of_nat (length tf)"
  shows "outcome (poke h s ctx sess) =
     Inl (AirflowException (case external_task_ids s of
            Some (t # ts) \<Rightarrow> External_tasks_failed (t # ts) (external_dag_id s)
          | _ \<Rightarrow> External_dag_failed (external_dag_id s)))"
  using poke_after_check [OF assms(1,2)] assms(3,4) by simp

theorem poke_raises_when_all_failed_witness:
  "poke_dttm_filter (ex_sensor [''success''] [''failed''] None (Some [''A'', ''B'']) True) ex_ctx
      = Inr [100]
   \<and> check_existence (ex_sensor [''success''] [''failed''] None (Some [''A'', ''B'']) True)
   \<and> \<not> has_checked_existence (ex_sensor [''success''] [''failed''] None (Some [''A'', ''B'']) True)
   \<and> check_for_existence ex_host
         (ex_sensor [''success''] [''failed''] None (Some [''A'', ''B'']) True)
         (ex_session [ti ''A'' ''failed'' 100, ti ''B'' ''failed'' 100,
                      ti ''A'' ''success'' 100, ti ''B'' ''success'' 100] [])
       = Inr ((ex_sensor [''success''] [''failed''] None (Some [''A'', ''B'']) True)
               \<lparr>has_checked_existence := True\<rparr>)
   \<and> failed_states (ex_sensor [''success''] [''failed''] None (Some [''A'', ''B'']) True) \<noteq> []
   \<and> get_count (ex_sensor [''success''] [''failed''] None (Some [''A'', ''B'']) True) [100]
        (ex_session [ti ''A'' ''failed'' 100, ti ''B'' ''failed'' 100,
                     ti ''A'' ''success'' 100, ti ''B'' ''success'' 100] []) [''failed''] = 1
   \<and> get_count (ex_sensor [''success''] [''failed''] None (Some [''A'', ''B'']) True) [100]
        (ex_session [ti ''A'' ''failed'' 100, ti ''B'' ''failed'' 100,
                     ti ''A'' ''success'' 100, ti ''B'' ''success'' 100] []) [''success''] = 1
   \<and> outcome (poke ex_host (ex_sensor [''success''] [''failed''] None (Some [''A'', ''B'']) True)
        ex_ctx
        (ex_session [ti ''A'' ''failed'' 100, ti ''B'' ''failed'' 100,
                     ti ''A'' ''success'' 100, ti ''B'' ''success'' 100] []))
      = Inl (AirflowException (External_tasks_failed [''A'', ''B''] ''W''))"
proof -
  let ?s = "ex_sensor [''success''] [''failed''] None (Some [''A'', ''B'']) True"
  let ?sess = "ex_session [ti ''A'' ''failed'' 100, ti ''B'' ''failed'' 100,
                           ti ''A'' ''success'' 100, ti ''B'' ''success'' 100] []"
  have h1: "poke_dttm_filter ?s ex_ctx = Inr [100]"
    by (simp add: poke_defs ex_defs)
  have c: "check_for_existence ex_host ?s ?sess = Inr (?s\<lparr>has_checked_existence := True\<rparr>)"
    by (simp add: check_for_existence_def ex_defs)
  then have h2: "check_existence ?s \<and> \<not> has_checked_existence ?s \<longrightarrow>
      (\<exists>s'. check_for_existence ex_host ?s ?sess = Inr s')"
    by simp
  have h3: "failed_states ?s \<noteq> []" by (simp add: ex_defs)
  have f: "failed_states ?s = [''failed'']" by (simp add: ex_defs)
  have g: "get_count ?s [100] ?sess [''failed''] = 1"
    by (simp add: get_count_def true_divide_numerals ex_defs)
  have g': "get_count ?s [100] ?sess [''success''] = 1"
    by (simp add: get_count_def true_divide_numerals ex_defs)
  have h4: "get_count ?s [100] ?sess (failed_states ?s) = of_nat (length [100 :: timestamp])"
    using g f by simp
  have e: "external_task_ids ?s = Some [''A'', ''B'']" "external_dag_id ?s = ''W''"
    by (simp_all add: ex_defs)
  have k: "check_existence ?s" "\<not> has_checked_existence ?s" by (simp_all add: ex_defs)
  show ?thesis
    using poke_raises_when_all_failed [OF h1 h2 h3 h4] h1 c k h3 g g' e by simp
qed

section \<open>An empty target sequence\<close>

text \<open>
  C4, as the code has it. When the resolved target sequence is empty and no failed
  states are configured, a call of \<open>poke\<close> that reaches the counts returns true:
  \<open>get_count\<close> returns 0 for the empty sequence, and 0 is the number of targets.
\<close>

theorem poke_empty_targets_satisfied:
  assumes "poke_dttm_filter s ctx = Inr []"
    and "check_existence s \<and> \<not> has_checked_existence s \<longrightarrow>
           (\<exists>s'. check_for_existence h s sess = Inr s')"
    and "failed_states s = []"
  shows "outcome (poke h s ctx sess) = Inr True"
  using poke_after_check [OF assms(1,2)] assms(3) by (simp add: get_count_def)

text \<open>
  The date function of the sensor below returns the empty list: the call reports the
  dependency as satisfied.
\<close>

theorem poke_empty_targets_counterexample:
  "poke_dttm_filter (ex_sensor [''success''] [] (Some no_dates) None False) ex_ctx = Inr []
   \<and> failed_states (ex_sensor [''success''] [] (Some no_dates) None False) = []
   \<and> outcome (poke ex_host (ex_sensor [''success''] [] (Some no_dates) None False) ex_ctx
        (ex_session [] [])) = Inr True"
  by (simp add: poke_defs ex_defs)

theorem poke_empty_targets_satisfied_witness:
  "poke_dttm_filter (ex_sensor [''success''] [] (Some no_dates) None True) ex_ctx = Inr []
   \<and> check_existence (ex_sensor [''success''] [] (Some no_dates) None True)
   \<and> \<not> has_checked_existence (ex_sensor [''success''] [] (Some no_dates) None True)
   \<and> check_for_existence ex_host
         (ex_sensor [''success''] [] (Some no_dates) None True) (ex_session rows3 [])
       = Inr ((ex_sensor [''success''] [] (Some no_dates) None True)
               \<lparr>has_checked_existence := True\<rparr>)
   \<and> failed_states (ex_sensor [''success''] [] (Some no_dates) None True) = []
   \<and> outcome (poke ex_host (ex_sensor [''success''] [] (Some no_dates) None True) ex_ctx
        (ex_session rows3 [])) = Inr True"
proof -
  let ?s = "ex_sensor [''success''] [] (Some no_dates) None True"
  have h1: "poke_dttm_filter ?s ex_ctx = Inr []"
    by (simp add: poke_defs ex_defs)
  have c: "check_for_existence ex_host ?s (ex_session rows3 [])
             = Inr (?s\<lparr>has_checked_existence := True\<rparr>)"
    by (simp add: check_for_existence_def ex_defs)
  then have h2: "check_existence ?s \<and> \<not> has_checked_existence ?s \<longrightarrow>
      (\<exists>s'. check_for_existence ex_host ?s (ex_session rows3 []) = Inr s')"
    by simp
  have h3: "failed_states ?s = []" by (simp add: ex_defs)
  have k: "check_existence ?s" "\<not> has_checked_existence ?s" by (simp_all add: ex_defs)
  show ?thesis
    using poke_empty_targets_satisfied [OF h1 h2 h3] h1 c k h3 by simp
qed

section \<open>The count\<close>

lemma get_count_task_ids:
  assumes "external_task_ids s = Some ids" and "ids \<noteq> []"
  shows "get_count s tf sess states =
     true_divide
       (int (length (matching_records (external_dag_id s) ids states tf (task_instances sess))))
       (int (length ids))"
proof (cases "tf = []")
  case True
  then show ?thesis by (simp add: get_count_def matching_records_def true_divide_def)
next
  case False
  with assms show ?thesis
    by (cases ids) (simp_all add: get_count_def matching_records_def)
qed

text \<open>
  C3, as the code has it. With a non-empty list of task ids, \<open>get_count\<close> is the
  number of matching task-instance rows divided by the number of task ids with
  Python's \<open>/\<close>: the result is the float \<open>true_divide\<close> gives, which is the quotient
  itself when the quotient is an integer below \<open>2 ^ 53\<close>. With the two task ids \<open>A\<close>
  and \<open>B\<close> and the two targets 100 and 101, four matching rows give the count 2 and
  the verdict true; three matching rows give 3/2, which is not 2, and the verdict
  false.
\<close>

theorem get_count_normalized:
  "(external_task_ids s = Some ids \<and> ids \<noteq> [] \<longrightarrow>
      get_count s tf sess states =
        true_divide
          (int (length (matching_records (external_dag_id s) ids states tf (task_instances sess))))
          (int (length ids)))
   \<and> (external_task_ids s' = Some ids' \<and> ids' \<noteq> []
        \<and> length (matching_records (external_dag_id s') ids' states' tf' (task_instances sess'))
            = k * length ids'
        \<and> k < 2 ^ 53 \<longrightarrow>
      get_count s' tf' sess' states' = of_nat k)
   \<and> get_count (ex_sensor [''success''] [] (Some two_dates) (Some [''A'', ''B'']) False)
        [100, 101] (ex_session rows4 []) [''success''] = 2
   \<and> outcome (poke ex_host (ex_sensor [''success''] [] (Some two_dates) (Some [''A'', ''B'']) False)
        ex_ctx (ex_session rows4 [])) = Inr True
   \<and> get_count (ex_sensor [''success''] [] (Some two_dates) (Some [''A'', ''B'']) False)
        [100, 101] (ex_session rows3 []) [''success''] = 3 / 2
   \<and> (3 / 2 :: rat) \<noteq> 2
   \<and> outcome (poke ex_host (ex_sensor [''success''] [] (Some two_dates) (Some [''A'', ''B'']) False)
        ex_ctx (ex_session rows3 [])) = Inr False"
proof -
  have general: "external_task_ids s = Some ids \<and> ids \<noteq> [] \<longrightarrow>
      get_count s tf sess states =
        true_divide
          (int (length (matching_records (external_dag_id s) ids states tf (task_instances sess))))
          (int (length ids))"
    using get_count_task_ids by blast
  have exact: "external_task_ids s' = Some ids' \<and> ids' \<noteq> []
        \<and> length (matching_records (external_dag_id s') ids' states' tf' (task_instances sess'))
            = k * length ids'
        \<and> k < 2 ^ 53 \<longrightarrow>
      get_count s' tf' sess' states' = of_nat k"
  proof
    assume h: "external_task_ids s' = Some ids' \<and> ids' \<noteq> []
        \<and> length (matching_records (external_dag_id s') ids' states' tf' (task_instances sess'))
            = k * length ids'
        \<and> k < 2 ^ 53"
    then have b: "0 < int (length ids')" by simp
    from h have "int k < 2 ^ 53"
      by (metis of_nat_less_iff of_nat_numeral of_nat_power)
    from true_divide_exact [OF b _ this] have "true_divide (int k * int (length ids'))
       (int (length ids')) = of_int (int k)" by simp
    with h get_count_task_ids [of s' ids' tf' sess' states']
    show "get_count s' tf' sess' states' = of_nat k" by simp
  qed
  let ?s = "ex_sensor [''success''] [] (Some two_dates) (Some [''A'', ''B'']) False"
  have c4: "get_count ?s [100, 101] (ex_session rows4 []) [''success''] = 2"
    by (simp add: get_count_def true_divide_numerals ex_defs)
  have p4: "outcome (poke ex_host ?s ex_ctx (ex_session rows4 [])) = Inr True"
    by (simp add: poke_defs ex_defs)
  have c3: "get_count ?s [100, 101] (ex_session rows3 []) [''success''] = 3 / 2"
    by (simp add: get_count_def true_divide_numerals ex_defs)
  have p3: "outcome (poke ex_host ?s ex_ctx (ex_session rows3 [])) = Inr False"
    by (simp add: poke_defs ex_defs)
  have n: "(3 / 2 :: rat) \<noteq> 2" by simp
  from general exact c4 p4 c3 n p3 show ?thesis by blast
qed

text \<open>
  One matching row and three task ids: the count is the double nearest to a third,
  not a third.
\<close>

theorem get_count_normalized_counterexample:
  "external_task_ids (ex_sensor [''success''] [] None (Some [''A'', ''B'', ''C'']) False)
      = Some [''A'', ''B'', ''C'']
   \<and> length (matching_records ''W'' [''A'', ''B'', ''C''] [''success''] [100]
        [ti ''A'' ''success'' 100]) = 1
   \<and> length [''A'', ''B'', ''C''] = 3
   \<and> get_count (ex_sensor [''success''] [] None (Some [''A'', ''B'', ''C'']) False) [100]
        (ex_session [ti ''A'' ''success'' 100] []) [''success'']
      = 6004799503160661 / 18014398509481984
   \<and> (6004799503160661 / 18014398509481984 :: rat) \<noteq> 1 / 3"
  by (simp add: get_count_def true_divide_numerals matching_records_def ex_defs)

theorem get_count_normalized_witness:
  "external_task_ids (ex_sensor [''success''] [] None (Some [''A'', ''B'']) False) = Some [''A'', ''B'']
   \<and> [''A'', ''B''] \<noteq> []
   \<and> length (matching_records ''W'' [''A'', ''B''] [''success''] [100, 101] rows3) = 3
   \<and> get_count (ex_sensor [''success''] [] None (Some [''A'', ''B'']) False) [100, 101]
       (ex_session rows3 []) [''success''] = true_divide 3 2
   \<and> length (matching_records ''W'' [''A'', ''B''] [''success''] [100, 101] rows4)
       = 2 * length [''A'', ''B'']
   \<and> (2 :: nat) < 2 ^ 53
   \<and> get_count (ex_sensor [''success''] [] None (Some [''A'', ''B'']) False) [100, 101]
       (ex_session rows4 []) [''success''] = 2"
proof -
  let ?s = "ex_sensor [''success''] [] None (Some [''A'', ''B'']) False"
  have h: "external_task_ids ?s = Some [''A'', ''B'']" by (simp add: ex_defs)
  have d: "external_dag_id ?s = ''W''" "task_instances (ex_session rows3 []) = rows3"
    "task_instances (ex_session rows4 []) = rows4"
    by (simp_all add: ex_defs)
  have m3: "length (matching_records ''W'' [''A'', ''B''] [''success''] [100, 101] rows3) = 3"
    by (simp add: matching_records_def ex_defs)
  have m4: "length (matching_records ''W'' [''A'', ''B''] [''success''] [100, 101] rows4)
      = 2 * length [''A'', ''B'']"
    by (simp add: matching_records_def ex_defs)
  have k: "(2 :: nat) < 2 ^ 53" by simp
  have l: "int (length [''A'', ''B'']) = 2" by simp
  show ?thesis
    using get_count_normalized [of ?s "[''A'', ''B'']" "[100, 101]" "ex_session rows3 []"
        "[''success'']" ?s "[''A'', ''B'']" "[''success'']" "[100, 101]" "ex_session rows4 []" 2]
      h m3 m4 k
    by (simp only: d l) simp
qed

section \<open>Errors of one call\<close>

lemma check_tasks_Some:
  "check_tasks d dag_tasks ids = Some e \<Longrightarrow>
     \<exists>t. e = AirflowException (External_task_does_not_exist t d)"
  by (induction ids) (auto split: if_splits)

lemma check_for_existence_Inl:
  "check_for_existence h s sess = Inl e \<Longrightarrow>
     NotFoundError (Inl e) \<or> e = AttributeError ''has_task''"
  by (auto simp: check_for_existence_def split: option.splits if_splits list.splits
           dest!: check_tasks_Some)

lemma poke_dttm_filter_Inl:
  "poke_dttm_filter s ctx = Inl e \<Longrightarrow>
     e = KeyError ''logical_date'' \<or> e = OverflowError ''date value out of range''
     \<or> (\<exists>m. e = Raised_by_execution_date_fn m)"
  by (auto simp: poke_dttm_filter_def poke_dttm_def handle_execution_date_fn_def
        datetime_sub_def
           split: option.splits if_splits sum.splits)

text \<open>With the flag set, a call leaves it set, does not run the check and raises no
  error of the check.\<close>

lemma poke_flag_set:
  assumes "has_checked_existence s"
  shows "has_checked_existence (sensor_after (poke h s ctx sess))
       \<and> \<not> ran_check (poke h s ctx sess)
       \<and> \<not> NotFoundError (outcome (poke h s ctx sess))"
proof (cases "poke_dttm_filter s ctx")
  case (Inl e)
  with assms poke_dttm_filter_Inl [OF Inl] show ?thesis
    by (auto simp: poke_def ran_check_def)
next
  case (Inr tf)
  with assms show ?thesis
    by (auto simp: poke_def ran_check_def Let_def split: option.splits list.splits)
qed

lemma length_poke_many: "length (poke_many s inputs) = length inputs"
  by (induction inputs arbitrary: s) (auto simp: Let_def)

lemma poke_many_flag_set:
  "has_checked_existence s \<Longrightarrow> r \<in> set (poke_many s inputs) \<Longrightarrow>
     \<not> ran_check r \<and> \<not> NotFoundError (outcome r)"
proof (induction inputs arbitrary: s)
  case Nil
  then show ?case by simp
next
  case (Cons x xs)
  obtain h ctx sess where x: "x = (h, ctx, sess)" by (cases x)
  from Cons.prems(2) x
  have "r = poke h s ctx sess \<or> r \<in> set (poke_many (sensor_after (poke h s ctx sess)) xs)"
    by (simp add: Let_def)
  then show ?case
  proof
    assume "r = poke h s ctx sess"
    with poke_flag_set [OF Cons.prems(1)] show ?thesis by simp
  next
    assume "r \<in> set (poke_many (sensor_after (poke h s ctx sess)) xs)"
    with Cons.IH poke_flag_set [OF Cons.prems(1)] show ?thesis by blast
  qed
qed

lemma poke_many_latch:
  "i < j \<Longrightarrow> j < length inputs \<Longrightarrow>
   has_checked_existence (sensor_after (poke_many s inputs ! i)) \<Longrightarrow>
   \<not> ran_check (poke_many s inputs ! j) \<and> \<not> NotFoundError (outcome (poke_many s inputs ! j))"
proof (induction inputs arbitrary: s i j)
  case Nil
  then show ?case by simp
next
  case (Cons x xs)
  obtain h ctx sess where x: "x = (h, ctx, sess)" by (cases x)
  let ?r = "poke h s ctx sess"
  have pm: "poke_many s (x # xs) = ?r # poke_many (sensor_after ?r) xs"
    by (simp add: x Let_def)
  from Cons.prems obtain j' where j: "j = Suc j'" "j' < length xs"
    by (cases j) auto
  show ?case
  proof (cases i)
    case 0
    with Cons.prems(3) have f: "has_checked_existence (sensor_after ?r)"
      by (simp add: pm)
    have "poke_many (sensor_after ?r) xs ! j' \<in> set (poke_many (sensor_after ?r) xs)"
      using j(2) by (simp add: length_poke_many)
    from poke_many_flag_set [OF f this] show ?thesis
      by (simp add: pm j(1))
  next
    case (Suc i')
    with Cons.prems j have "i' < j'"
      and "has_checked_existence (sensor_after (poke_many (sensor_after ?r) xs ! i'))"
      by (simp_all add: pm)
    from Cons.IH [OF this(1) j(2) this(2)] show ?thesis
      by (simp add: pm j(1))
  qed
qed

lemma poke_check_due:
  assumes "check_existence s" "\<not> has_checked_existence s" "poke_dttm_filter s ctx = Inr tf"
  shows "ran_check (poke h s ctx sess)
       \<and> (has_checked_existence (sensor_after (poke h s ctx sess))
            \<longleftrightarrow> (\<exists>s2. check_for_existence h s sess = Inr s2))"
proof (cases "check_for_existence h s sess")
  case (Inl e)
  with assms show ?thesis by (simp add: poke_def ran_check_def)
next
  case (Inr s2)
  then have "s2 = s\<lparr>has_checked_existence := True\<rparr>" by (rule check_for_existence_Inr)
  with Inr assms show ?thesis
    by (auto simp: poke_def ran_check_def Let_def split: option.splits list.splits)
qed

section \<open>The existence check over the calls of one instance\<close>

text \<open>
  C5, as the code has it. Once the flag of an instance is set, which is what an
  existence check that raised nothing does, no later call of \<open>poke\<close> on the instance
  runs the check or raises one of its not-found errors. A call with
  \<open>check_existence\<close> set and the flag unset runs the check, and the flag is set
  afterwards exactly when the check raised nothing: a check that raised leaves the
  flag unset.
\<close>

theorem existence_check_latch:
  "(i < j \<and> j < length inputs
      \<and> has_checked_existence (sensor_after (poke_many s inputs ! i))
     \<longrightarrow> \<not> ran_check (poke_many s inputs ! j)
         \<and> \<not> NotFoundError (outcome (poke_many s inputs ! j)))
   \<and> (check_existence s' \<and> \<not> has_checked_existence s' \<and> poke_dttm_filter s' ctx = Inr tf
     \<longrightarrow> ran_check (poke h s' ctx sess)
         \<and> (has_checked_existence (sensor_after (poke h s' ctx sess))
              \<longleftrightarrow> (\<exists>s2. check_for_existence h s' sess = Inr s2)))"
  using poke_many_latch [of i j inputs s] poke_check_due [of s' ctx tf h sess] by blast

text \<open>
  Two calls on one instance whose DAG is not registered: each runs the check, and each
  raises the not-found error.
\<close>

theorem existence_check_latch_counterexample:
  "check_existence (ex_sensor [''success''] [] None None True)
   \<and> map outcome (poke_many (ex_sensor [''success''] [] None None True)
        [(ex_host, ex_ctx, unregistered), (ex_host, ex_ctx, unregistered)])
      = [Inl (AirflowException (External_dag_does_not_exist ''W'')),
         Inl (AirflowException (External_dag_does_not_exist ''W''))]
   \<and> map calls (poke_many (ex_sensor [''success''] [] None None True)
        [(ex_host, ex_ctx, unregistered), (ex_host, ex_ctx, unregistered)])
      = [[Call_check_for_existence], [Call_check_for_existence]]"
  by (simp add: poke_defs ex_defs)

theorem existence_check_latch_witness:
  "(0 :: nat) < 1
   \<and> 1 < length [(ex_host, ex_ctx, ex_session rows4 []), (ex_host, ex_ctx, unregistered)]
   \<and> has_checked_existence (sensor_after (poke_many
        (ex_sensor [''success''] [] None (Some [''A'', ''B'']) True)
        [(ex_host, ex_ctx, ex_session rows4 []), (ex_host, ex_ctx, unregistered)] ! 0))
   \<and> \<not> ran_check (poke_many (ex_sensor [''success''] [] None (Some [''A'', ''B'']) True)
        [(ex_host, ex_ctx, ex_session rows4 []), (ex_host, ex_ctx, unregistered)] ! 1)
   \<and> \<not> NotFoundError (outcome (poke_many
        (ex_sensor [''success''] [] None (Some [''A'', ''B'']) True)
        [(ex_host, ex_ctx, ex_session rows4 []), (ex_host, ex_ctx, unregistered)] ! 1))
   \<and> check_existence (ex_sensor [''success''] [] None (Some [''A'', ''B'']) True)
   \<and> \<not> has_checked_existence (ex_sensor [''success''] [] None (Some [''A'', ''B'']) True)
   \<and> poke_dttm_filter (ex_sensor [''success''] [] None (Some [''A'', ''B'']) True) ex_ctx
       = Inr [100]
   \<and> ran_check (poke ex_host (ex_sensor [''success''] [] None (Some [''A'', ''B'']) True)
        ex_ctx (ex_session rows4 []))
   \<and> has_checked_existence (sensor_after (poke ex_host
        (ex_sensor [''success''] [] None (Some [''A'', ''B'']) True) ex_ctx (ex_session rows4 [])))"
proof -
  let ?s = "ex_sensor [''success''] [] None (Some [''A'', ''B'']) True"
  let ?inputs = "[(ex_host, ex_ctx, ex_session rows4 []), (ex_host, ex_ctx, unregistered)]"
  have c: "check_for_existence ex_host ?s (ex_session rows4 [])
             = Inr (?s\<lparr>has_checked_existence := True\<rparr>)"
    by (simp add: check_for_existence_def ex_defs)
  have f: "has_checked_existence (sensor_after (poke_many ?s ?inputs ! 0))"
    by (simp add: poke_defs ex_defs)
  have k: "check_existence ?s" "\<not> has_checked_existence ?s" by (simp_all add: ex_defs)
  have d: "poke_dttm_filter ?s ex_ctx = Inr [100]" by (simp add: poke_defs ex_defs)
  show ?thesis
    using existence_check_latch [of 0 1 ?inputs ?s ?s ex_ctx "[100]" ex_host "ex_session rows4 []"]
      f k d c by simp
qed

section \<open>Construction\<close>

text \<open>What a construction that succeeds has stored.\<close>

lemma init_Inr:
  assumes "ExternalTaskSensor_init St a = Inr s"
  shows "allowed_states s = list_or (arg_allowed_states a) [State_SUCCESS]"
    and "failed_states s = list_or (arg_failed_states a) []"
    and "execution_delta s = arg_execution_delta a"
    and "execution_date_fn s = arg_execution_date_fn a"
    and "external_dag_id s = arg_external_dag_id a"
    and "check_existence s = arg_check_existence a"
    and "\<not> has_checked_existence s"
    and "arg_execution_delta a = None \<or> arg_execution_date_fn a = None"
    and "set (failed_states s) \<inter> set (allowed_states s) = {}"
  using assms
  by (auto simp: ExternalTaskSensor_init_def Let_def
           split: if_splits option.splits list.splits)

lemma poke_outcome_Inl:
  assumes "outcome (poke h s ctx sess) = Inl e"
  shows "e = KeyError ''logical_date'' \<or> e = OverflowError ''date value out of range''
       \<or> (\<exists>m. e = Raised_by_execution_date_fn m)
       \<or> NotFoundError (Inl e) \<or> e = AttributeError ''has_task''
       \<or> (\<exists>ids. e = AirflowException (External_tasks_failed ids (external_dag_id s)))
       \<or> e = AirflowException (External_dag_failed (external_dag_id s))"
proof (cases "poke_dttm_filter s ctx")
  case (Inl e')
  with assms poke_dttm_filter_Inl [OF Inl] show ?thesis
    by (auto simp: poke_def)
next
  case (Inr tf)
  show ?thesis
  proof (cases "check_existence s \<and> \<not> has_checked_existence s")
    case True
    show ?thesis
    proof (cases "check_for_existence h s sess")
      case (Inl e')
      with True Inr assms have "e = e'" by (simp add: poke_def)
      with check_for_existence_Inl [OF Inl] show ?thesis by blast
    next
      case c: (Inr s')
      then have "\<exists>s'. check_for_existence h s sess = Inr s'" by blast
      with poke_after_check [OF Inr, of h sess] assms show ?thesis
        by (auto split: if_splits option.splits list.splits)
    qed
  next
    case False
    with poke_after_check [OF Inr, of h sess] assms show ?thesis
      by (auto split: if_splits option.splits list.splits)
  qed
qed

text \<open>
  C6. When the allowed and the failed states given to the constructor have a state in
  common, the construction raises the \<open>AirflowException\<close> for duplicate values. Every
  sensor that is constructed has disjoint allowed and failed states, and no call of
  \<open>poke\<close> raises that exception: the check is made at construction only.
\<close>

theorem disjoint_states_enforced_at_construction:
  "(arg_allowed_states a = Some al \<and> arg_failed_states a = Some fl \<and> set al \<inter> set fl \<noteq> {}
      \<longrightarrow> ExternalTaskSensor_init St a = Inl (AirflowException (Duplicate_states al fl)))
   \<and> (ExternalTaskSensor_init St' a' = Inr s
      \<longrightarrow> set (allowed_states s) \<inter> set (failed_states s) = {})
   \<and> outcome (poke h s' ctx sess) \<noteq> Inl (AirflowException (Duplicate_states al' fl'))"
proof (intro conjI impI)
  assume h: "arg_allowed_states a = Some al \<and> arg_failed_states a = Some fl
               \<and> set al \<inter> set fl \<noteq> {}"
  then have "al \<noteq> []" "fl \<noteq> []" by auto
  with h show "ExternalTaskSensor_init St a = Inl (AirflowException (Duplicate_states al fl))"
    by (simp add: ExternalTaskSensor_init_def Let_def Int_commute)
next
  assume "ExternalTaskSensor_init St' a' = Inr s"
  from init_Inr(9) [OF this] show "set (allowed_states s) \<inter> set (failed_states s) = {}"
    by (simp add: Int_commute)
next
  show "outcome (poke h s' ctx sess) \<noteq> Inl (AirflowException (Duplicate_states al' fl'))"
  proof
    assume "outcome (poke h s' ctx sess) = Inl (AirflowException (Duplicate_states al' fl'))"
    from poke_outcome_Inl [OF this] show False by simp
  qed
qed

theorem disjoint_states_enforced_at_construction_witness:
  "arg_allowed_states (ex_args\<lparr>arg_allowed_states := Some [''success'', ''failed''],
                               arg_failed_states := Some [''failed'']\<rparr>)
      = Some [''success'', ''failed'']
   \<and> arg_failed_states (ex_args\<lparr>arg_allowed_states := Some [''success'', ''failed''],
                                arg_failed_states := Some [''failed'']\<rparr>) = Some [''failed'']
   \<and> set [''success'', ''failed''] \<inter> set [''failed''] \<noteq> {}
   \<and> ExternalTaskSensor_init ex_State
        (ex_args\<lparr>arg_allowed_states := Some [''success'', ''failed''],
                  arg_failed_states := Some [''failed'']\<rparr>)
      = Inl (AirflowException (Duplicate_states [''success'', ''failed''] [''failed'']))
   \<and> ExternalTaskSensor_init ex_State (ex_args\<lparr>arg_failed_states := Some [''failed'']\<rparr>)
      = Inr (ex_sensor [''success''] [''failed''] None None False)
   \<and> set (allowed_states (ex_sensor [''success''] [''failed''] None None False))
        \<inter> set (failed_states (ex_sensor [''success''] [''failed''] None None False)) = {}"
proof -
  let ?a = "ex_args\<lparr>arg_allowed_states := Some [''success'', ''failed''],
                    arg_failed_states := Some [''failed'']\<rparr>"
  let ?a' = "ex_args\<lparr>arg_failed_states := Some [''failed'']\<rparr>"
  have h1: "arg_allowed_states ?a = Some [''success'', ''failed'']"
    and h2: "arg_failed_states ?a = Some [''failed'']"
    by (simp_all add: ex_defs)
  have h3: "set [''success'', ''failed''] \<inter> set [''failed''] \<noteq> {}" by simp
  have h4: "ExternalTaskSensor_init ex_State ?a'
              = Inr (ex_sensor [''success''] [''failed''] None None False)"
    by (simp add: ExternalTaskSensor_init_def Let_def ex_defs)
  show ?thesis
    using disjoint_states_enforced_at_construction
      [of ?a "[''success'', ''failed'']" "[''failed'']" ex_State ex_State ?a'
          "ex_sensor [''success''] [''failed''] None None False"]
      h1 h2 h3 h4 by blast
qed

section \<open>Target resolution\<close>

text \<open>
  C7, as the code has it. For a logical date \<open>T\<close> in the context, a datetime: a sensor
  constructed with the execution delta \<open>D\<close> resolves the targets to the one-element
  sequence \<open>[T - D]\<close> when \<open>T - D\<close> is a datetime, and raises \<open>OverflowError\<close> when it
  is not; a sensor constructed with neither a delta nor a date function resolves them
  to \<open>[T]\<close>.
\<close>

theorem target_resolution:
  "(ExternalTaskSensor_init St a = Inr s \<and> arg_execution_delta a = Some D
      \<and> ctx ''logical_date'' = Some T \<and> datetime_min \<le> T \<and> T \<le> datetime_max
     \<longrightarrow> poke_dttm_filter s ctx =
           (if datetime_min \<le> T - D \<and> T - D \<le> datetime_max then Inr [T - D]
            else Inl (OverflowError ''date value out of range'')))
   \<and> (ExternalTaskSensor_init St' a' = Inr s' \<and> arg_execution_delta a' = None
      \<and> arg_execution_date_fn a' = None \<and> ctx' ''logical_date'' = Some T'
     \<longrightarrow> poke_dttm_filter s' ctx' = Inr [T'])"
proof (intro conjI impI)
  assume h: "ExternalTaskSensor_init St a = Inr s \<and> arg_execution_delta a = Some D
      \<and> ctx ''logical_date'' = Some T \<and> datetime_min \<le> T \<and> T \<le> datetime_max"
  then have i: "ExternalTaskSensor_init St a = Inr s" by simp
  from init_Inr(3,4,8) [OF i] h
  have "execution_delta s = Some D" "execution_date_fn s = None" by auto
  with h show "poke_dttm_filter s ctx =
           (if datetime_min \<le> T - D \<and> T - D \<le> datetime_max then Inr [T - D]
            else Inl (OverflowError ''date value out of range''))"
    by (simp add: poke_dttm_filter_def poke_dttm_def datetime_sub_def)
next
  assume h: "ExternalTaskSensor_init St' a' = Inr s' \<and> arg_execution_delta a' = None
      \<and> arg_execution_date_fn a' = None \<and> ctx' ''logical_date'' = Some T'"
  then have i: "ExternalTaskSensor_init St' a' = Inr s'" by simp
  from init_Inr(3,4) [OF i] h
  have "execution_delta s' = None" "execution_date_fn s' = None" by auto
  with h show "poke_dttm_filter s' ctx' = Inr [T']"
    by (simp add: poke_dttm_filter_def poke_dttm_def)
qed

text \<open>
  The logical date is \<open>datetime.min\<close> and the delta one microsecond: the subtraction
  raises, and no target is resolved.
\<close>

theorem target_resolution_counterexample:
  "ExternalTaskSensor_init ex_State (ex_args\<lparr>arg_execution_delta := Some 1\<rparr>)
      = Inr ((ex_sensor [''success''] [] None None False)\<lparr>execution_delta := Some 1\<rparr>)
   \<and> ctx_at_datetime_min ''logical_date'' = Some datetime_min
   \<and> poke_dttm_filter ((ex_sensor [''success''] [] None None False)\<lparr>execution_delta := Some 1\<rparr>)
        ctx_at_datetime_min = Inl (OverflowError ''date value out of range'')"
  by (simp add: ExternalTaskSensor_init_def poke_dttm_filter_def poke_dttm_def
        datetime_sub_def datetime_min_def datetime_max_def Let_def ex_defs)

theorem target_resolution_witness:
  "ExternalTaskSensor_init ex_State (ex_args\<lparr>arg_execution_delta := Some 60\<rparr>)
      = Inr ((ex_sensor [''success''] [] None None False)\<lparr>execution_delta := Some 60\<rparr>)
   \<and> arg_execution_delta (ex_args\<lparr>arg_execution_delta := Some 60\<rparr>) = Some 60
   \<and> ex_ctx ''logical_date'' = Some 100
   \<and> datetime_min \<le> 100 \<and> 100 \<le> datetime_max
   \<and> datetime_min \<le> 100 - 60 \<and> 100 - 60 \<le> datetime_max
   \<and> poke_dttm_filter ((ex_sensor [''success''] [] None None False)\<lparr>execution_delta := Some 60\<rparr>)
        ex_ctx = Inr [100 - 60]
   \<and> ExternalTaskSensor_init ex_State ex_args = Inr (ex_sensor [''success''] [] None None False)
   \<and> arg_execution_delta ex_args = None
   \<and> arg_execution_date_fn ex_args = None
   \<and> poke_dttm_filter (ex_sensor [''success''] [] None None False) ex_ctx = Inr [100]"
proof -
  let ?a = "ex_args\<lparr>arg_execution_delta := Some 60\<rparr>"
  let ?s = "(ex_sensor [''success''] [] None None False)\<lparr>execution_delta := Some 60\<rparr>"
  have i: "ExternalTaskSensor_init ex_State ?a = Inr ?s"
    by (simp add: ExternalTaskSensor_init_def Let_def ex_defs)
  have i': "ExternalTaskSensor_init ex_State ex_args
              = Inr (ex_sensor [''success''] [] None None False)"
    by (simp add: ExternalTaskSensor_init_def Let_def ex_defs)
  have d: "arg_execution_delta ?a = Some 60" "arg_execution_delta ex_args = None"
    "arg_execution_date_fn ex_args = None"
    by (simp_all add: ex_defs)
  have c: "ex_ctx ''logical_date'' = Some 100" by (simp add: ex_defs)
  have r: "datetime_min \<le> 100" "100 \<le> datetime_max"
    "datetime_min \<le> 100 - 60" "100 - 60 \<le> datetime_max"
    by (simp_all add: datetime_min_def datetime_max_def)
  show ?thesis
    using target_resolution [of ex_State ?a ?s 60 ex_ctx 100 ex_State ex_args
        "ex_sensor [''success''] [] None None False" ex_ctx 100]
      i i' d c r by simp
qed

text \<open>A delta of zero is falsy: the call takes the last branch, which gives the same
  target.\<close>

lemma zero_delta:
  "poke_dttm_filter ((ex_sensor [''success''] [] None None False)\<lparr>execution_delta := Some 0\<rparr>)
     ex_ctx = Inr [100]"
  by (simp add: poke_dttm_filter_def poke_dttm_def ex_defs)

section \<open>The existence check comes first\<close>

text \<open>
  C8. A sensor constructed with \<open>check_existence\<close> whose external DAG has no row in
  the session: its first call of \<open>poke\<close>, once the targets are resolved, raises the
  does-not-exist error, and the only call it has made is the existence check, so no
  \<open>get_count\<close> comes before the failure.
\<close>

theorem not_found_before_any_count:
  assumes "ExternalTaskSensor_init St a = Inr s"
    and "arg_check_existence a"
    and "arg_external_dag_id a \<notin> dm_dag_id ` set (dag_models sess)"
    and "poke_dttm_filter s ctx = Inr tf"
  shows "outcome (poke h s ctx sess)
           = Inl (AirflowException (External_dag_does_not_exist (arg_external_dag_id a)))
       \<and> calls (poke h s ctx sess) = [Call_check_for_existence]"
proof -
  from init_Inr(5,6,7) [OF assms(1)] assms(2)
  have k: "external_dag_id s = arg_external_dag_id a" "check_existence s"
    "\<not> has_checked_existence s" by simp_all
  from assms(3) have "find (\<lambda>d. dm_dag_id d = arg_external_dag_id a) (dag_models sess) = None"
    by (force simp: find_None_iff image_iff)
  with k have "check_for_existence h s sess
     = Inl (AirflowException (External_dag_does_not_exist (arg_external_dag_id a)))"
    by (simp add: check_for_existence_def)
  with k assms(4) show ?thesis by (simp add: poke_def)
qed

theorem not_found_before_any_count_witness:
  "ExternalTaskSensor_init ex_State (ex_args\<lparr>arg_check_existence := True\<rparr>)
      = Inr (ex_sensor [''success''] [] None None True)
   \<and> arg_check_existence (ex_args\<lparr>arg_check_existence := True\<rparr>)
   \<and> arg_external_dag_id (ex_args\<lparr>arg_check_existence := True\<rparr>)
        \<notin> dm_dag_id ` set (dag_models unregistered)
   \<and> poke_dttm_filter (ex_sensor [''success''] [] None None True) ex_ctx = Inr [100]
   \<and> outcome (poke ex_host (ex_sensor [''success''] [] None None True) ex_ctx unregistered)
        = Inl (AirflowException (External_dag_does_not_exist ''W''))
   \<and> calls (poke ex_host (ex_sensor [''success''] [] None None True) ex_ctx unregistered)
        = [Call_check_for_existence]"
proof -
  let ?a = "ex_args\<lparr>arg_check_existence := True\<rparr>"
  let ?s = "ex_sensor [''success''] [] None None True"
  have h1: "ExternalTaskSensor_init ex_State ?a = Inr ?s"
    by (simp add: ExternalTaskSensor_init_def Let_def ex_defs)
  have h2: "arg_check_existence ?a" by (simp add: ex_defs)
  have h3: "arg_external_dag_id ?a \<notin> dm_dag_id ` set (dag_models unregistered)"
    by (simp add: ex_defs)
  have h4: "poke_dttm_filter ?s ex_ctx = Inr [100]" by (simp add: poke_defs ex_defs)
  have d: "arg_external_dag_id ?a = ''W''" by (simp add: ex_defs)
  show ?thesis
    using not_found_before_any_count [OF h1 h2 h3 h4, of ex_host] h1 h2 h3 h4 d by simp
qed

section \<open>The marker\<close>

text \<open>
  C9. Constructing an \<open>ExternalTaskMarker\<close>: a recursion depth that is not positive
  raises (the \<open>ValueError\<close>, or the \<open>TypeError\<close> of the execution date, which is
  checked first); an execution date that is neither a string nor a datetime raises
  the \<open>TypeError\<close>; a datetime execution date is stored as its \<open>isoformat\<close> string.
\<close>

theorem marker_construction:
  "(recursion_depth \<le> 0
      \<longrightarrow> ExternalTaskMarker_init isoformat dag_id task_id execution_date recursion_depth
            = Inl (if execution_date = Other_arg then TypeError Expected_str_or_datetime
                   else ValueError Recursion_depth_not_positive))
   \<and> ExternalTaskMarker_init isoformat' dag_id' task_id' Other_arg recursion_depth'
        = Inl (TypeError Expected_str_or_datetime)
   \<and> (0 < recursion_depth''
      \<longrightarrow> ExternalTaskMarker_init isoformat'' dag_id'' task_id'' (Datetime_arg d) recursion_depth''
            = Inr \<lparr> marker_external_dag_id = dag_id'',
                    marker_external_task_id = task_id'',
                    marker_execution_date = isoformat'' d,
                    marker_recursion_depth = recursion_depth'' \<rparr>)"
  by (cases execution_date) (simp_all add: ExternalTaskMarker_init_def)

theorem marker_construction_witness:
  "(0 :: int) \<le> 0
   \<and> ExternalTaskMarker_init (\<lambda>t. ''1970-01-01T00:00:00'') ''W'' ''A'' (Str_arg ''2021-01-01'') 0
        = Inl (ValueError Recursion_depth_not_positive)
   \<and> (0 :: int) < 10
   \<and> ExternalTaskMarker_init (\<lambda>t. ''1970-01-01T00:00:00'') ''W'' ''A'' (Datetime_arg 0) 10
        = Inr \<lparr> marker_external_dag_id = ''W'',
                marker_external_task_id = ''A'',
                marker_execution_date = ''1970-01-01T00:00:00'',
                marker_recursion_depth = 10 \<rparr>"
  using marker_construction [of 0 "\<lambda>t. ''1970-01-01T00:00:00''" "''W''" "''A''" "Str_arg ''2021-01-01''"
      _ _ _ _ 10 "\<lambda>t. ''1970-01-01T00:00:00''" "''W''" "''A''" 0]
  by simp

section \<open>An empty collection of task ids\<close>

lemma get_count_no_ids:
  "external_task_ids s = None \<or> external_task_ids s = Some [] \<Longrightarrow>
   get_count s tf sess states
     = of_nat (length (matching_runs (external_dag_id s) states tf (dag_runs sess)))"
  by (auto simp: get_count_def matching_runs_def)

lemma get_count_ids_None:
  "external_task_ids s = Some [] \<Longrightarrow>
   get_count (s\<lparr>external_task_ids := None\<rparr>) tf sess states = get_count s tf sess states"
  by (simp add: get_count_def)

lemma poke_dttm_filter_ids:
  "poke_dttm_filter (s\<lparr>external_task_ids := ids\<rparr>) ctx = poke_dttm_filter s ctx"
  by (simp add: poke_dttm_filter_def poke_dttm_def split: option.splits)

lemma check_for_existence_ids_None:
  "external_task_ids s = Some [] \<Longrightarrow>
   check_for_existence h (s\<lparr>external_task_ids := None\<rparr>) sess
     = map_sum id (\<lambda>s. s\<lparr>external_task_ids := None\<rparr>) (check_for_existence h s sess)"
  by (simp add: check_for_existence_def split: option.splits)

lemma poke_ids_None:
  assumes "external_task_ids s = Some []"
  shows "outcome (poke h (s\<lparr>external_task_ids := None\<rparr>) ctx sess) = outcome (poke h s ctx sess)"
    and "calls (poke h (s\<lparr>external_task_ids := None\<rparr>) ctx sess) = calls (poke h s ctx sess)"
    and "sensor_after (poke h (s\<lparr>external_task_ids := None\<rparr>) ctx sess)
           = (sensor_after (poke h s ctx sess))\<lparr>external_task_ids := None\<rparr>"
proof -
  let ?s0 = "s\<lparr>external_task_ids := None\<rparr>"
  have all: "outcome (poke h ?s0 ctx sess) = outcome (poke h s ctx sess)
     \<and> calls (poke h ?s0 ctx sess) = calls (poke h s ctx sess)
     \<and> sensor_after (poke h ?s0 ctx sess)
           = (sensor_after (poke h s ctx sess))\<lparr>external_task_ids := None\<rparr>"
  proof (cases "poke_dttm_filter s ctx")
    case (Inl e)
    then show ?thesis by (simp add: poke_def poke_dttm_filter_ids)
  next
    case (Inr tf)
    show ?thesis
    proof (cases "check_existence s \<and> \<not> has_checked_existence s")
      case True
      show ?thesis
      proof (cases "check_for_existence h s sess")
        case (Inl e)
        with True Inr assms show ?thesis
          by (simp add: poke_def poke_dttm_filter_ids check_for_existence_ids_None)
      next
        case c: (Inr s')
        then have s': "s' = s\<lparr>has_checked_existence := True\<rparr>"
          by (rule check_for_existence_Inr)
        from True Inr c assms show ?thesis
          unfolding s'
          by (simp add: poke_def poke_dttm_filter_ids check_for_existence_ids_None Let_def
                get_count_ids_None get_count_flag)
      qed
    next
      case False
      with Inr assms show ?thesis
        by (auto simp: poke_def poke_dttm_filter_ids Let_def get_count_ids_None)
    qed
  qed
  from all show "outcome (poke h ?s0 ctx sess) = outcome (poke h s ctx sess)" by simp
  from all show "calls (poke h ?s0 ctx sess) = calls (poke h s ctx sess)" by simp
  from all show "sensor_after (poke h ?s0 ctx sess)
           = (sensor_after (poke h s ctx sess))\<lparr>external_task_ids := None\<rparr>" by simp
qed

lemma init_empty_ids:
  assumes "arg_external_task_ids a = Some []" and "arg_external_task_id a = None"
  shows "ExternalTaskSensor_init St (a\<lparr>arg_external_task_ids := None\<rparr>)
           = map_sum id (\<lambda>s. s\<lparr>external_task_ids := None\<rparr>) (ExternalTaskSensor_init St a)"
    and "ExternalTaskSensor_init St a = Inr s \<Longrightarrow>
           external_task_ids s = Some []
           \<and> set (allowed_states s) \<union> set (failed_states s) \<subseteq> set (dag_states St)"
    and "ExternalTaskSensor_init St a \<noteq> Inl (ValueError (Invalid_task_states v))"
  using assms
  by (auto simp: ExternalTaskSensor_init_def Let_def split: if_splits)

text \<open>
  C10, as the code has it. A construction with \<open>external_task_ids\<close> empty and
  \<open>external_task_id\<close> not given does what the construction with \<open>external_task_ids\<close>
  \<open>None\<close> does: the same error, or the same sensor but for the stored (empty) list.
  The states are validated against the DAG-level vocabulary, never the task-level
  one; \<open>get_count\<close> counts the matching DAG runs and divides by nothing; and every
  call of \<open>poke\<close> has the same outcome and makes the same calls as on the sensor
  constructed with \<open>None\<close>.
\<close>

theorem empty_task_ids_as_none:
  assumes "arg_external_task_ids a = Some []"
    and "arg_external_task_id a = None"
  shows "ExternalTaskSensor_init St (a\<lparr>arg_external_task_ids := None\<rparr>)
           = map_sum id (\<lambda>s. s\<lparr>external_task_ids := None\<rparr>) (ExternalTaskSensor_init St a)
       \<and> ExternalTaskSensor_init St a \<noteq> Inl (ValueError (Invalid_task_states v))
       \<and> (ExternalTaskSensor_init St a = Inr s \<longrightarrow>
            set (allowed_states s) \<union> set (failed_states s) \<subseteq> set (dag_states St)
          \<and> get_count s tf sess states
              = of_nat (length (matching_runs (external_dag_id s) states tf (dag_runs sess)))
          \<and> outcome (poke h (s\<lparr>external_task_ids := None\<rparr>) ctx sess)
              = outcome (poke h s ctx sess)
          \<and> calls (poke h (s\<lparr>external_task_ids := None\<rparr>) ctx sess)
              = calls (poke h s ctx sess)
          \<and> sensor_after (poke h (s\<lparr>external_task_ids := None\<rparr>) ctx sess)
              = (sensor_after (poke h s ctx sess))\<lparr>external_task_ids := None\<rparr>)"
proof (intro conjI impI)
  show "ExternalTaskSensor_init St (a\<lparr>arg_external_task_ids := None\<rparr>)
           = map_sum id (\<lambda>s. s\<lparr>external_task_ids := None\<rparr>) (ExternalTaskSensor_init St a)"
    by (rule init_empty_ids(1) [OF assms])
  show "ExternalTaskSensor_init St a \<noteq> Inl (ValueError (Invalid_task_states v))"
    by (rule init_empty_ids(3) [OF assms])
next
  assume i: "ExternalTaskSensor_init St a = Inr s"
  from init_empty_ids(2) [OF assms i]
  have e: "external_task_ids s = Some []"
    and v: "set (allowed_states s) \<union> set (failed_states s) \<subseteq> set (dag_states St)"
    by simp_all
  show "set (allowed_states s) \<union> set (failed_states s) \<subseteq> set (dag_states St)" by (rule v)
  show "get_count s tf sess states
          = of_nat (length (matching_runs (external_dag_id s) states tf (dag_runs sess)))"
    using e by (simp add: get_count_no_ids)
  show "outcome (poke h (s\<lparr>external_task_ids := None\<rparr>) ctx sess) = outcome (poke h s ctx sess)"
    by (rule poke_ids_None(1) [OF e])
  show "calls (poke h (s\<lparr>external_task_ids := None\<rparr>) ctx sess) = calls (poke h s ctx sess)"
    by (rule poke_ids_None(2) [OF e])
  show "sensor_after (poke h (s\<lparr>external_task_ids := None\<rparr>) ctx sess)
          = (sensor_after (poke h s ctx sess))\<lparr>external_task_ids := None\<rparr>"
    by (rule poke_ids_None(3) [OF e])
qed

text \<open>
  With \<open>external_task_id\<close> given as well, the empty collection is rejected (it is not
  \<open>None\<close>), while the construction with \<open>None\<close> gives a sensor on the task.
\<close>

theorem empty_task_ids_counterexample:
  "ExternalTaskSensor_init ex_State
      (ex_args\<lparr>arg_external_task_id := Some ''A'', arg_external_task_ids := Some []\<rparr>)
     = Inl (ValueError Only_one_of_task_id_or_task_ids)
   \<and> ExternalTaskSensor_init ex_State
      (ex_args\<lparr>arg_external_task_id := Some ''A'', arg_external_task_ids := None\<rparr>)
     = Inr ((ex_sensor [''success''] [] None (Some [''A'']) False)
             \<lparr>external_task_id := Some ''A''\<rparr>)"
  by (simp add: ExternalTaskSensor_init_def Let_def ex_defs)

theorem empty_task_ids_as_none_witness:
  "arg_external_task_ids (ex_args\<lparr>arg_external_task_ids := Some []\<rparr>) = Some []
   \<and> arg_external_task_id (ex_args\<lparr>arg_external_task_ids := Some []\<rparr>) = None
   \<and> ExternalTaskSensor_init ex_State (ex_args\<lparr>arg_external_task_ids := Some []\<rparr>)
       = Inr (ex_sensor [''success''] [] None (Some []) False)
   \<and> ExternalTaskSensor_init ex_State
        (ex_args\<lparr>arg_external_task_ids := Some [], arg_external_task_ids := None\<rparr>)
       = Inr ((ex_sensor [''success''] [] None (Some []) False)\<lparr>external_task_ids := None\<rparr>)
   \<and> set (allowed_states (ex_sensor [''success''] [] None (Some []) False))
        \<union> set (failed_states (ex_sensor [''success''] [] None (Some []) False))
       \<subseteq> set (dag_states ex_State)
   \<and> get_count (ex_sensor [''success''] [] None (Some []) False) [100]
        (ex_session rows4 [\<lparr>dr_dag_id = ''W'', dr_state = ''success'', dr_execution_date = 100\<rparr>])
        [''success'']
       = of_nat (length (matching_runs ''W'' [''success''] [100]
            [\<lparr>dr_dag_id = ''W'', dr_state = ''success'', dr_execution_date = 100\<rparr>]))
   \<and> outcome (poke ex_host ((ex_sensor [''success''] [] None (Some []) False)
                  \<lparr>external_task_ids := None\<rparr>) ex_ctx
        (ex_session rows4 [\<lparr>dr_dag_id = ''W'', dr_state = ''success'', dr_execution_date = 100\<rparr>]))
       = outcome (poke ex_host (ex_sensor [''success''] [] None (Some []) False) ex_ctx
        (ex_session rows4 [\<lparr>dr_dag_id = ''W'', dr_state = ''success'', dr_execution_date = 100\<rparr>]))
   \<and> outcome (poke ex_host (ex_sensor [''success''] [] None (Some []) False) ex_ctx
        (ex_session rows4 [\<lparr>dr_dag_id = ''W'', dr_state = ''success'', dr_execution_date = 100\<rparr>]))
       = Inr True"
proof -
  let ?a = "ex_args\<lparr>arg_external_task_ids := Some []\<rparr>"
  let ?s = "ex_sensor [''success''] [] None (Some []) False"
  let ?sess = "ex_session rows4
     [\<lparr>dr_dag_id = ''W'', dr_state = ''success'', dr_execution_date = 100\<rparr>]"
  have h1: "arg_external_task_ids ?a = Some []" and h2: "arg_external_task_id ?a = None"
    by (simp_all add: ex_defs)
  have i: "ExternalTaskSensor_init ex_State ?a = Inr ?s"
    by (simp add: ExternalTaskSensor_init_def Let_def ex_defs)
  have d: "external_dag_id ?s = ''W''"
    "dag_runs ?sess = [\<lparr>dr_dag_id = ''W'', dr_state = ''success'', dr_execution_date = 100\<rparr>]"
    by (simp_all add: ex_defs)
  have p: "outcome (poke ex_host ?s ex_ctx ?sess) = Inr True"
    by (simp add: poke_defs ex_defs)
  show ?thesis
    using empty_task_ids_as_none [OF h1 h2, of ex_State _ ?s "[100]" ?sess "[''success'']"
        ex_host ex_ctx] h1 h2 i d p
    by simp
qed

end
